theory Spec2Isabelle
  imports Main
begin

section \<open>Serializers of the store application (store/serializers.py)\<close>

subsection \<open>Values, actors, errors\<close>

text \<open>
  A persisted StoreProfile is identified by its primary key: Django compares two model
  instances of the same model by primary key, so two \<open>profile\<close> values are equal exactly
  when they denote the same persisted row.
\<close>

datatype profile = Profile (pk: nat)

text \<open>
  The actor of a request. \<open>AnonymousUser\<close> has no attribute \<open>profile\<close> at all; a stored
  \<open>User\<close> has the reverse one-to-one relation \<open>profile\<close>, whose access raises an
  attribute-resolution error when no StoreProfile row points at the user
  (\<open>user_profile = None\<close>).
\<close>

datatype user = AnonymousUser | User (user_id: nat) (user_profile: "profile option")

datatype pyval =
    PyNone
  | PyStr string
  | PyInt int
  | PyBool bool
  | PyProfile profile
  | PyUser user

text \<open>A dict with string keys: \<open>validated_data\<close>, \<open>related_objects\<close>, a stored row.\<close>

type_synonym payload = "string \<rightharpoonup> pyval"

text \<open>
  The request found in the serializer context. \<open>user = None\<close> is Python's \<open>None\<close>
  (an unauthenticated request under a configuration with no anonymous user object).
\<close>

record request =
  user :: "user option"

text \<open>The serializer context is a dict; only its key \<open>'request'\<close> is read here.\<close>

type_synonym serializer_context = "string \<rightharpoonup> request"

datatype error =
    ImproperlyConfigured string
  | ValidationError string
  | KeyError string
  | AttributeError string
  | RecursionError

text \<open>The tables the serializers write to, each a list of rows in insertion order.\<close>

record db =
  users :: "payload list"
  profiles :: "payload list"
  products :: "payload list"

text \<open>
  A database operation: it takes the tables and returns either the raised error or the
  result, together with the tables as the operation left them.
\<close>

type_synonym 'a tx = "db \<Rightarrow> (error + 'a) \<times> db"

subsection \<open>Attribute access on the actor\<close>

text \<open>
  \<open>user.profile\<close>: raises AttributeError on \<open>None\<close>, on the anonymous user, and on a
  stored user with no StoreProfile (Django's RelatedObjectDoesNotExist is a subclass of
  AttributeError).
\<close>

fun profile_attr :: "user option \<Rightarrow> error + profile" where
  "profile_attr None = Inl (AttributeError ''profile'')"
| "profile_attr (Some AnonymousUser) = Inl (AttributeError ''profile'')"
| "profile_attr (Some (User uid None)) = Inl (AttributeError ''profile'')"
| "profile_attr (Some (User uid (Some p))) = Inr p"

text \<open>\<open>getattr(u, 'profile', None)\<close>: the AttributeError becomes the default.\<close>

definition getattr_profile :: "user option \<Rightarrow> profile option" where
  "getattr_profile u = (case profile_attr u of Inl e \<Rightarrow> None | Inr p \<Rightarrow> Some p)"

text \<open>\<open>hasattr(u, 'profile')\<close>.\<close>

definition hasattr_profile :: "user option \<Rightarrow> bool" where
  "hasattr_profile u = (case profile_attr u of Inl e \<Rightarrow> False | Inr p \<Rightarrow> True)"

text \<open>Truth value of \<open>user\<close>: \<open>None\<close> is false, every user object is true.\<close>

fun truthy_user :: "user option \<Rightarrow> bool" where
  "truthy_user None = False"
| "truthy_user (Some u) = True"

text \<open>\<open>user.is_authenticated\<close>, read only on a user object.\<close>

fun is_authenticated :: "user \<Rightarrow> bool" where
  "is_authenticated AnonymousUser = False"
| "is_authenticated (User uid p) = True"

text \<open>\<open>user and user.is_authenticated\<close>: the attribute is read only when \<open>user\<close> is true.\<close>

definition user_and_is_authenticated :: "user option \<Rightarrow> bool" where
  "user_and_is_authenticated u =
     (if truthy_user u then (case u of None \<Rightarrow> False | Some usr \<Rightarrow> is_authenticated usr)
      else False)"

subsection \<open>SetOwnProfileMixin\<close>

text \<open>
  The inner class \<open>Meta\<close> of a serializer class, as far as the mixin reads it:
  \<open>profile_field_name = None\<close> says that the attribute is not declared. A serializer class
  with no \<open>Meta\<close> at all is \<open>None :: meta option\<close>.
\<close>

record meta =
  profile_field_name :: "string option"

text \<open>A constructed serializer instance: its class options and the context it was given
  (\<open>self.context\<close>).\<close>

record serializer =
  Meta :: "meta option"
  context_of :: serializer_context

definition improperly_configured :: error where
  "improperly_configured =
     ImproperlyConfigured ''must set Meta.profile_field_name or override get_profile_field_name()''"

text \<open>
  \<open>getattr(self, 'Meta', None).profile_field_name\<close>: the AttributeError of a missing
  \<open>Meta\<close> (attribute read on \<open>None\<close>) or of a missing \<open>profile_field_name\<close> is re-raised
  as ImproperlyConfigured.
\<close>

definition get_profile_field_name :: "meta option \<Rightarrow> error + string" where
  "get_profile_field_name m =
     (case m of
        None \<Rightarrow> Inl improperly_configured
      | Some mt \<Rightarrow>
          (case profile_field_name mt of
             None \<Rightarrow> Inl improperly_configured
           | Some f \<Rightarrow> Inr f))"

text \<open>
  \<open>__init__\<close>: the base constructor stores the options and the context, then
  \<open>get_profile_field_name\<close> is called and its result dropped.
\<close>

definition SetOwnProfileMixin_init :: "meta option \<Rightarrow> serializer_context \<Rightarrow> error + serializer" where
  "SetOwnProfileMixin_init m ctx =
     (case get_profile_field_name m of
        Inl e \<Rightarrow> Inl e
      | Inr f \<Rightarrow> Inr \<lparr>Meta = m, context_of = ctx\<rparr>)"

text \<open>
  The class statement of a serializer class that uses the mixin. \<open>SetOwnProfileMixin\<close>
  declares no metaclass and no \<open>__init_subclass__\<close>, and \<open>get_profile_field_name\<close> is
  called from \<open>__init__\<close> only: creating the class runs no check on \<open>Meta\<close>, and the class
  exists whatever \<open>Meta\<close> holds.
\<close>

definition SetOwnProfileMixin_class_statement :: "meta option \<Rightarrow> error + meta option" where
  "SetOwnProfileMixin_class_statement m = Inr m"

text \<open>
  \<open>get_profile_kwargs\<close>: \<open>self.context['request']\<close> raises KeyError on a missing key;
  in the dict display the key is evaluated before the value.
\<close>

definition get_profile_kwargs :: "serializer \<Rightarrow> error + (string \<times> pyval)" where
  "get_profile_kwargs s =
     (case context_of s ''request'' of
        None \<Rightarrow> Inl (KeyError ''request'')
      | Some req \<Rightarrow>
          (case get_profile_field_name (Meta s) of
             Inl e \<Rightarrow> Inl e
           | Inr f \<Rightarrow>
               (case profile_attr (user req) of
                  Inl e \<Rightarrow> Inl e
                | Inr p \<Rightarrow> Inr (f, PyProfile p))))"

text \<open>
  \<open>create\<close>: \<open>validated_data.update(...)\<close> then \<open>super().create(validated_data)\<close>. The
  next \<open>create\<close> in the method resolution order is the parameter \<open>super_create\<close>.
\<close>

definition SetOwnProfileMixin_create ::
  "(payload \<Rightarrow> 'a tx) \<Rightarrow> serializer \<Rightarrow> payload \<Rightarrow> 'a tx" where
  "SetOwnProfileMixin_create super_create s validated_data d =
     (case get_profile_kwargs s of
        Inl e \<Rightarrow> (Inl e, d)
      | Inr (f, v) \<Rightarrow> super_create (validated_data(f \<mapsto> v)) d)"

text \<open>
  \<open>ModelSerializer.create\<close> for the model Product: one row with the given field values is
  inserted (\<open>Product.objects.create(**validated_data)\<close>) and returned.
\<close>

definition Product_create :: "payload \<Rightarrow> payload tx" where
  "Product_create validated_data d =
     (Inr validated_data, d\<lparr>products := products d @ [validated_data]\<rparr>)"

text \<open>\<open>ProductNestedSerializer.Meta\<close>: \<open>profile_field_name = 'seller'\<close>.\<close>

definition ProductNestedSerializer_Meta :: meta where
  "ProductNestedSerializer_Meta = \<lparr>profile_field_name = Some ''seller''\<rparr>"

definition ProductNestedSerializer_create :: "serializer \<Rightarrow> payload \<Rightarrow> payload tx" where
  "ProductNestedSerializer_create = SetOwnProfileMixin_create Product_create"

subsection \<open>StoreProfileSerializer\<close>

text \<open>
  \<open>get_is_self\<close>: \<open>self.context.get('request')\<close> gives \<open>None\<close> on a missing key,
  \<open>getattr(request, 'user', None)\<close> gives \<open>None\<close> on a missing request, and
  \<open>getattr(..., 'profile', None)\<close> gives \<open>None\<close> where the attribute access fails. A
  profile never equals \<open>None\<close>.
\<close>

definition get_is_self :: "serializer_context \<Rightarrow> profile \<Rightarrow> bool" where
  "get_is_self ctx profile =
     (let request = ctx ''request'';
          u = (case request of None \<Rightarrow> None | Some req \<Rightarrow> user req);
          me = getattr_profile u
      in (case me of None \<Rightarrow> False | Some p \<Rightarrow> profile = p))"

text \<open>
  \<open>transaction.atomic\<close>: the decorated operation runs in a transaction; when it raises,
  the transaction is rolled back, so the tables are those from before the call, and the
  error is raised again. Otherwise its writes are kept.
\<close>

definition atomic :: "'a tx \<Rightarrow> 'a tx" where
  "atomic f d =
     (case f d of
        (Inl e, d') \<Rightarrow> (Inl e, d)
      | (Inr r, d') \<Rightarrow> (Inr r, d'))"

text \<open>The user as a dict value: \<open>None\<close> or the user object.\<close>

fun user_value :: "user option \<Rightarrow> pyval" where
  "user_value None = PyNone"
| "user_value (Some u) = PyUser u"

text \<open>
  The body of \<open>create\<close>. \<open>FlatNestedSerializerMixin._update_flattened_field\<close> lives in
  main/serializers.py and is the parameter \<open>update_flattened_field\<close>: it receives
  \<open>validated_data\<close> and \<open>related_objects\<close>, may change both in place, may write to the
  tables and may raise. \<open>super().create\<close> is the parameter \<open>super_create\<close>.
  \<open>validated_data.update(related_objects)\<close> is \<open>++\<close>, where the right dict wins.
\<close>

definition StoreProfileSerializer_create_body ::
  "(payload \<Rightarrow> payload \<Rightarrow> (payload \<times> payload) tx) \<Rightarrow> (payload \<Rightarrow> 'a tx) \<Rightarrow>
   serializer_context \<Rightarrow> payload \<Rightarrow> 'a tx" where
  "StoreProfileSerializer_create_body update_flattened_field super_create ctx validated_data d =
     (case ctx ''request'' of
        None \<Rightarrow> (Inl (KeyError ''request''), d)
      | Some req \<Rightarrow>
          (let u = user req in
           if user_and_is_authenticated u \<and> hasattr_profile u \<and> getattr_profile u \<noteq> None
           then (Inl (ValidationError ''user already has a StoreProfile!''), d)
           else
             (case update_flattened_field validated_data [''user'' \<mapsto> user_value u] d of
                (Inl e, d1) \<Rightarrow> (Inl e, d1)
              | (Inr (validated_data1, related_objects1), d1) \<Rightarrow>
                  super_create (validated_data1 ++ related_objects1) d1)))"

text \<open>\<open>create\<close> is the body under \<open>@transaction.atomic\<close>.\<close>

definition StoreProfileSerializer_create ::
  "(payload \<Rightarrow> payload \<Rightarrow> (payload \<times> payload) tx) \<Rightarrow> (payload \<Rightarrow> 'a tx) \<Rightarrow>
   serializer_context \<Rightarrow> payload \<Rightarrow> 'a tx" where
  "StoreProfileSerializer_create update_flattened_field super_create ctx validated_data =
     atomic (StoreProfileSerializer_create_body update_flattened_field super_create ctx validated_data)"

text \<open>The user a stored StoreProfile row points at, and the number of rows of one user.\<close>

fun row_user_id :: "payload \<Rightarrow> nat option" where
  "row_user_id row =
     (case row ''user'' of
        Some (PyUser (User uid p)) \<Rightarrow> Some uid
      | _ \<Rightarrow> None)"

definition profile_count :: "db \<Rightarrow> nat \<Rightarrow> nat" where
  "profile_count d uid = length (filter (\<lambda>row. row_user_id row = Some uid) (profiles d))"

subsection \<open>Declared options of the serializer classes\<close>

text \<open>\<open>StoreProfileSerializer.Meta\<close>. \<open>fields\<close> is \<open>user_fields\<close> followed by a tuple literal,
  named \<open>own_fields\<close> here.\<close>

definition StoreProfileSerializer_user_fields :: "string list" where
  "StoreProfileSerializer_user_fields = [''email'', ''first_name'', ''last_name'']"

definition StoreProfileSerializer_own_fields :: "string list" where
  "StoreProfileSerializer_own_fields =
     [''id'', ''is_self'', ''phone'', ''city'', ''address'', ''person_type'', ''seller_type'',
      ''products'']"

definition StoreProfileSerializer_fields :: "string list" where
  "StoreProfileSerializer_fields =
     StoreProfileSerializer_user_fields @ StoreProfileSerializer_own_fields"

definition StoreProfileSerializer_read_only_fields :: "string list" where
  "StoreProfileSerializer_read_only_fields = [''id'', ''email'', ''products'']"

text \<open>\<open>flatten_fields\<close>: a dict from relation name to field names, here with one key.\<close>

definition StoreProfileSerializer_flatten_fields :: "(string \<times> string list) list" where
  "StoreProfileSerializer_flatten_fields = [(''user'', StoreProfileSerializer_user_fields)]"

text \<open>\<open>extra_kwargs\<close>: a dict from field name to keyword arguments.\<close>

definition StoreProfileSerializer_extra_kwargs :: "(string \<times> (string \<times> bool) list) list" where
  "StoreProfileSerializer_extra_kwargs =
     map (\<lambda>k. (k, [(''required'', False)])) StoreProfileSerializer_fields"

text \<open>The fields declared as \<open>SerializerMethodField\<close> on the class: computed, never stored.\<close>

definition StoreProfileSerializer_method_fields :: "string list" where
  "StoreProfileSerializer_method_fields = [''is_self'']"

text \<open>\<open>StoreProfileCreateSerializer.Meta\<close>; \<open>read_only_fields\<close> is inherited.\<close>

definition StoreProfileCreateSerializer_fields :: "string list" where
  "StoreProfileCreateSerializer_fields =
     filter (\<lambda>f. f \<noteq> ''products'') StoreProfileSerializer_fields"

definition StoreProfileCreateSerializer_extra_kwargs :: "(string \<times> (string \<times> bool) list) list" where
  "StoreProfileCreateSerializer_extra_kwargs =
     map (\<lambda>k. (k, [(''required'', True)]))
       (filter (\<lambda>k. k \<notin> set StoreProfileSerializer_read_only_fields)
          StoreProfileSerializer_fields)"

text \<open>\<open>StoreProfileNestedSerializer.Meta\<close>.\<close>

definition StoreProfileNestedSerializer_fields :: "string list" where
  "StoreProfileNestedSerializer_fields =
     filter (\<lambda>f. f \<noteq> ''products'') StoreProfileSerializer_fields"

text \<open>\<open>ProductNestedSerializer.Meta\<close>; \<open>ProductListSerializer\<close> declares no \<open>Meta\<close> and
  inherits it.\<close>

definition ProductNestedSerializer_fields :: "string list" where
  "ProductNestedSerializer_fields =
     [''id'', ''category'', ''category_name'', ''seller'', ''title'', ''unit'', ''unit_price'',
      ''quantity'', ''created'', ''modified'']"

definition ProductListSerializer_fields :: "string list" where
  "ProductListSerializer_fields = ProductNestedSerializer_fields"

definition ProductDetailSerializer_fields :: "string list" where
  "ProductDetailSerializer_fields = ProductListSerializer_fields @ [''description'']"

subsection \<open>CategorySerializer\<close>

text \<open>A category with the categories whose parent it is.\<close>

datatype category = Category (name: string) (slug: string) (children: "category list")

text \<open>The serialized form: strings, lists, and dicts in field order.\<close>

datatype repr = RStr string | RList "repr list" | RDict "(string \<times> repr) list"

text \<open>
  The results of a list comprehension whose element expression may raise: the elements
  are evaluated in order and the first error ends the comprehension.
\<close>

fun collect_results :: "(error + 'a) list \<Rightarrow> error + 'a list" where
  "collect_results [] = Inr []"
| "collect_results (x # xs) =
     (case x of
        Inl e \<Rightarrow> Inl e
      | Inr r \<Rightarrow> (case collect_results xs of Inl e \<Rightarrow> Inl e | Inr rs \<Rightarrow> Inr (r # rs)))"

text \<open>
  \<open>fields = ('name', 'slug', 'children')\<close>, where \<open>children = RecursiveField(many=True)\<close>
  serializes every child with \<open>CategorySerializer\<close> itself, by a nested call on the
  interpreter's stack. \<open>max_depth\<close> is the number of nested levels the stack still holds:
  the recursion limit (\<open>sys.getrecursionlimit()\<close>, 1000 frames unless raised) less the
  frames in use, divided by the frames one level needs in rest_framework. A level that
  does not fit raises RecursionError, which nothing here catches.
\<close>

fun CategorySerializer_to_representation :: "nat \<Rightarrow> category \<Rightarrow> error + repr" where
  "CategorySerializer_to_representation 0 c = Inl RecursionError"
| "CategorySerializer_to_representation (Suc max_depth) (Category n s cs) =
     (case collect_results (map (CategorySerializer_to_representation max_depth) cs) of
        Inl e \<Rightarrow> Inl e
      | Inr rs \<Rightarrow>
          Inr (RDict [(''name'', RStr n), (''slug'', RStr s), (''children'', RList rs)]))"

text \<open>The number of levels of a category tree; a category without children has one.\<close>

fun category_depth :: "category \<Rightarrow> nat" where
  "category_depth (Category n s cs) = Suc (foldr max (map category_depth cs) 0)"

text \<open>A chain of \<open>n + 1\<close> categories, each the only child of the one before.\<close>

fun category_chain :: "nat \<Rightarrow> category" where
  "category_chain 0 = Category ''c'' ''c'' []"
| "category_chain (Suc n) = Category ''c'' ''c'' [category_chain n]"

text \<open>The number of categories in a tree, and the tree with its labels erased.\<close>

fun category_count :: "category \<Rightarrow> nat" where
  "category_count (Category n s cs) = Suc (sum_list (map category_count cs))"

datatype shape = Node "shape list"

fun category_shape :: "category \<Rightarrow> shape" where
  "category_shape (Category n s cs) = Node (map category_shape cs)"

text \<open>
  The same two readings of a serialized value: every dict is a node, and the nodes found
  below it (through lists and field values) are its subtrees.
\<close>

fun repr_count :: "repr \<Rightarrow> nat" where
  "repr_count (RStr x) = 0"
| "repr_count (RList xs) = sum_list (map repr_count xs)"
| "repr_count (RDict kvs) = Suc (sum_list (map (\<lambda>kv. repr_count (snd kv)) kvs))"

fun repr_shapes :: "repr \<Rightarrow> shape list" where
  "repr_shapes (RStr x) = []"
| "repr_shapes (RList xs) = concat (map repr_shapes xs)"
| "repr_shapes (RDict kvs) = [Node (concat (map (\<lambda>kv. repr_shapes (snd kv)) kvs))]"

text \<open>
  The category trees a serialized value describes: every dict is a category with the
  strings under name and slug, and with the categories found in its values as children.
\<close>

definition repr_string :: "string \<Rightarrow> (string \<times> repr) list \<Rightarrow> string" where
  "repr_string k kvs = (case map_of kvs k of Some (RStr x) \<Rightarrow> x | _ \<Rightarrow> [])"

fun repr_categories :: "repr \<Rightarrow> category list" where
  "repr_categories (RStr x) = []"
| "repr_categories (RList xs) = concat (map repr_categories xs)"
| "repr_categories (RDict kvs) =
     [Category (repr_string ''name'' kvs) (repr_string ''slug'' kvs)
        (concat (map (\<lambda>kv. repr_categories (snd kv)) kvs))]"

text \<open>Every dict of a serialized value has exactly the keys name, slug, children.\<close>

fun exposes_category_fields :: "repr \<Rightarrow> bool" where
  "exposes_category_fields (RStr x) = True"
| "exposes_category_fields (RList xs) = list_all exposes_category_fields xs"
| "exposes_category_fields (RDict kvs) =
     (map fst kvs = [''name'', ''slug'', ''children'']
      \<and> list_all (\<lambda>kv. exposes_category_fields (snd kv)) kvs)"

text \<open>What a serialized value must be to stand for a category tree.\<close>

definition serialized_as :: "category \<Rightarrow> repr \<Rightarrow> bool" where
  "serialized_as c r \<longleftrightarrow>
     repr_categories r = [c] \<and> repr_count r = category_count c
     \<and> repr_shapes r = [category_shape c] \<and> exposes_category_fields r"

subsection \<open>Splitting a flat payload by flatten group\<close>

text \<open>
  Modelled from the spec: \<open>FlatNestedSerializerMixin\<close> (main/serializers.py), which splits
  the payload, is not among the sources. The spec's write path: the flat payload is split
  into one sub-payload per flatten group, holding only that group's declared field names,
  which are removed from the parent payload; what is left are the parent's own fields.
\<close>

definition split_group :: "string list \<Rightarrow> payload \<Rightarrow> payload \<times> payload" where
  "split_group names p = (p |` set names, p |` (- set names))"

fun split_payload ::
  "(string \<times> string list) list \<Rightarrow> payload \<Rightarrow> (string \<times> payload) list \<times> payload" where
  "split_payload [] p = ([], p)"
| "split_payload ((rel, names) # groups) p =
     (case split_group names p of
        (sub, rest) \<Rightarrow>
          (case split_payload groups rest of
             (subs, own) \<Rightarrow> ((rel, sub) # subs, own)))"

text \<open>Re-merging: the sub-payloads are laid over the parent's own fields, key by key.\<close>

fun merge_payload :: "(string \<times> payload) list \<Rightarrow> payload \<Rightarrow> payload" where
  "merge_payload [] own = own"
| "merge_payload ((rel, sub) # subs) own = sub ++ merge_payload subs own"

text \<open>In how many pieces of a split (sub-payloads and own fields) a key occurs.\<close>

definition key_occurrences :: "string \<Rightarrow> (string \<times> payload) list \<Rightarrow> payload \<Rightarrow> nat" where
  "key_occurrences k subs own =
     length (filter (\<lambda>piece. piece k \<noteq> None) (map snd subs @ [own]))"

section \<open>Properties\<close>

subsection \<open>Owner attachment\<close>

text \<open>
  C1. Owner authority: when a Product is created through \<open>ProductNestedSerializer\<close> by an
  actor who has the profile \<open>p\<close>, the mixin hands the payload with \<open>seller\<close> set to \<open>p\<close> to the
  next \<open>create\<close>, whatever the payload held under \<open>seller\<close> before, and the row that is
  persisted and returned carries \<open>seller = p\<close>.
\<close>

theorem product_create_owner_authority:
  assumes "context_of s ''request'' = Some req"
    and "Meta s = Some ProductNestedSerializer_Meta"
    and "user req = Some (User uid (Some p))"
  shows "SetOwnProfileMixin_create super_create s validated_data d =
           super_create (validated_data(''seller'' \<mapsto> PyProfile p)) d
         \<and> (validated_data(''seller'' \<mapsto> PyProfile p)) ''seller'' = Some (PyProfile p)
         \<and> fst (ProductNestedSerializer_create s validated_data d) =
             Inr (validated_data(''seller'' \<mapsto> PyProfile p))
         \<and> products (snd (ProductNestedSerializer_create s validated_data d)) =
             products d @ [validated_data(''seller'' \<mapsto> PyProfile p)]"
proof -
  have k: "get_profile_kwargs s = Inr (''seller'', PyProfile p)"
    using assms
    by (simp add: get_profile_kwargs_def get_profile_field_name_def
        ProductNestedSerializer_Meta_def)
  show ?thesis
    by (simp add: SetOwnProfileMixin_create_def ProductNestedSerializer_create_def
        Product_create_def k)
qed

theorem product_create_owner_authority_witness:
  "last (products (snd (ProductNestedSerializer_create
      \<lparr>Meta = Some ProductNestedSerializer_Meta,
        context_of = [''request'' \<mapsto> \<lparr>user = Some (User 1 (Some (Profile 7)))\<rparr>]\<rparr>
      [''seller'' \<mapsto> PyProfile (Profile 99), ''title'' \<mapsto> PyStr ''carrot'']
      \<lparr>users = [], profiles = [], products = []\<rparr>))) ''seller''
   = Some (PyProfile (Profile 7))"
  using product_create_owner_authority
    [of "\<lparr>Meta = Some ProductNestedSerializer_Meta,
        context_of = [''request'' \<mapsto> \<lparr>user = Some (User 1 (Some (Profile 7)))\<rparr>]\<rparr>"
        "\<lparr>user = Some (User 1 (Some (Profile 7)))\<rparr>" 1 "Profile 7" Product_create
        "[''seller'' \<mapsto> PyProfile (Profile 99), ''title'' \<mapsto> PyStr ''carrot'']"
        "\<lparr>users = [], profiles = [], products = []\<rparr>"]
  by simp

text \<open>
  C5. A serializer class with no \<open>Meta\<close>, or whose \<open>Meta\<close> declares no
  \<open>profile_field_name\<close>, is created without any error, and cannot be instantiated:
  \<open>__init__\<close> raises ImproperlyConfigured, for every context, with or without a request
  in it, so no serializer object exists on which \<open>create\<close> could run; the error is not a
  ValidationError.
\<close>

theorem init_fails_without_profile_field_name:
  assumes "case m of None \<Rightarrow> True | Some mt \<Rightarrow> profile_field_name mt = None"
  shows "SetOwnProfileMixin_class_statement m = Inr m
         \<and> SetOwnProfileMixin_init m ctx =
           Inl (ImproperlyConfigured
             ''must set Meta.profile_field_name or override get_profile_field_name()'')
         \<and> (\<forall>s. SetOwnProfileMixin_init m ctx \<noteq> Inr s)
         \<and> (\<forall>msg. SetOwnProfileMixin_init m ctx \<noteq> Inl (ValidationError msg))"
  using assms
  by (auto simp: SetOwnProfileMixin_init_def get_profile_field_name_def
      SetOwnProfileMixin_class_statement_def improperly_configured_def split: option.splits)

theorem init_fails_without_profile_field_name_witness:
  "SetOwnProfileMixin_init None Map.empty =
     Inl (ImproperlyConfigured
       ''must set Meta.profile_field_name or override get_profile_field_name()'')
   \<and> SetOwnProfileMixin_init (Some \<lparr>profile_field_name = None\<rparr>)
       [''request'' \<mapsto> \<lparr>user = Some (User 1 (Some (Profile 7)))\<rparr>] =
     Inl (ImproperlyConfigured
       ''must set Meta.profile_field_name or override get_profile_field_name()'')"
  using init_fails_without_profile_field_name [of None Map.empty]
    init_fails_without_profile_field_name [of "Some \<lparr>profile_field_name = None\<rparr>"
      "[''request'' \<mapsto> \<lparr>user = Some (User 1 (Some (Profile 7)))\<rparr>]"]
  by simp

text \<open>
  The check does not run when the schema is declared: the class statement of a class with
  no \<open>Meta\<close> succeeds, and the error is raised only by the first instantiation, here one
  made for a request of a user with a profile.
\<close>

theorem init_check_deferred_to_instantiation_counterexample:
  "SetOwnProfileMixin_class_statement None = Inr None
   \<and> SetOwnProfileMixin_init None
       [''request'' \<mapsto> \<lparr>user = Some (User 1 (Some (Profile 7)))\<rparr>] =
     Inl (ImproperlyConfigured
       ''must set Meta.profile_field_name or override get_profile_field_name()'')"
  by (simp add: SetOwnProfileMixin_class_statement_def SetOwnProfileMixin_init_def
      get_profile_field_name_def improperly_configured_def)

lemma init_Inr:
  "SetOwnProfileMixin_init m ctx = Inr s \<Longrightarrow>
     context_of s = ctx \<and> (\<exists>f. get_profile_field_name (Meta s) = Inr f)"
  by (auto simp: SetOwnProfileMixin_init_def split: sum.splits)

text \<open>
  C10. On a constructed serializer, \<open>create\<close> raises KeyError when the context has no key
  \<open>'request'\<close>, and AttributeError when the request's user is \<open>None\<close>, anonymous, or a
  stored user with no profile; in both cases nothing is written and the next \<open>create\<close> is
  not reached. Neither error is a ValidationError or ImproperlyConfigured.
\<close>

theorem owner_attachment_needs_actor_profile:
  assumes "SetOwnProfileMixin_init m ctx = Inr s"
  shows "(ctx ''request'' = None \<longrightarrow>
            SetOwnProfileMixin_create super_create s validated_data d =
              (Inl (KeyError ''request''), d))
         \<and> (\<forall>req. ctx ''request'' = Some req
               \<and> (case user req of Some (User uid (Some p)) \<Rightarrow> False | _ \<Rightarrow> True) \<longrightarrow>
            SetOwnProfileMixin_create super_create s validated_data d =
              (Inl (AttributeError ''profile''), d))"
proof -
  from init_Inr [OF assms] obtain f where c: "context_of s = ctx"
    and f: "get_profile_field_name (Meta s) = Inr f" by blast
  have a: "profile_attr u = Inl (AttributeError ''profile'')"
    if "case u of Some (User uid (Some p)) \<Rightarrow> False | _ \<Rightarrow> True" for u
    using that by (cases u rule: profile_attr.cases) simp_all
  show ?thesis
    by (auto simp: SetOwnProfileMixin_create_def get_profile_kwargs_def c f a)
qed

theorem owner_attachment_needs_actor_profile_witness:
  "SetOwnProfileMixin_init (Some ProductNestedSerializer_Meta) Map.empty =
     Inr \<lparr>Meta = Some ProductNestedSerializer_Meta, context_of = Map.empty\<rparr>
   \<and> ProductNestedSerializer_create
       \<lparr>Meta = Some ProductNestedSerializer_Meta, context_of = Map.empty\<rparr>
       [''title'' \<mapsto> PyStr ''carrot''] \<lparr>users = [], profiles = [], products = []\<rparr>
     = (Inl (KeyError ''request''), \<lparr>users = [], profiles = [], products = []\<rparr>)
   \<and> SetOwnProfileMixin_init (Some ProductNestedSerializer_Meta)
       [''request'' \<mapsto> \<lparr>user = Some (User 1 None)\<rparr>] =
     Inr \<lparr>Meta = Some ProductNestedSerializer_Meta,
          context_of = [''request'' \<mapsto> \<lparr>user = Some (User 1 None)\<rparr>]\<rparr>
   \<and> ProductNestedSerializer_create
       \<lparr>Meta = Some ProductNestedSerializer_Meta,
        context_of = [''request'' \<mapsto> \<lparr>user = Some (User 1 None)\<rparr>]\<rparr>
       [''title'' \<mapsto> PyStr ''carrot''] \<lparr>users = [], profiles = [], products = []\<rparr>
     = (Inl (AttributeError ''profile''), \<lparr>users = [], profiles = [], products = []\<rparr>)"
proof -
  have i1: "SetOwnProfileMixin_init (Some ProductNestedSerializer_Meta) Map.empty =
     Inr \<lparr>Meta = Some ProductNestedSerializer_Meta, context_of = Map.empty\<rparr>"
    by (simp add: SetOwnProfileMixin_init_def get_profile_field_name_def
        ProductNestedSerializer_Meta_def)
  have i2: "SetOwnProfileMixin_init (Some ProductNestedSerializer_Meta)
       [''request'' \<mapsto> \<lparr>user = Some (User 1 None)\<rparr>] =
     Inr \<lparr>Meta = Some ProductNestedSerializer_Meta,
          context_of = [''request'' \<mapsto> \<lparr>user = Some (User 1 None)\<rparr>]\<rparr>"
    by (simp add: SetOwnProfileMixin_init_def get_profile_field_name_def
        ProductNestedSerializer_Meta_def)
  show ?thesis
    using owner_attachment_needs_actor_profile [OF i1, of Product_create]
      owner_attachment_needs_actor_profile [OF i2, of Product_create] i1 i2
    by (simp add: ProductNestedSerializer_create_def)
qed

subsection \<open>Creating a StoreProfile\<close>

text \<open>
  C2. Atomicity: whatever \<open>_update_flattened_field\<close> and the next \<open>create\<close> do, if the body
  of \<open>StoreProfileSerializer.create\<close> raises at any step, \<open>create\<close> raises the same error and
  leaves every table as it was before the call.
\<close>

theorem create_is_all_or_nothing:
  assumes "fst (StoreProfileSerializer_create_body update_flattened_field super_create
                  ctx validated_data d) = Inl e"
  shows "StoreProfileSerializer_create update_flattened_field super_create ctx validated_data d
           = (Inl e, d)"
  using assms
  by (cases "StoreProfileSerializer_create_body update_flattened_field super_create
               ctx validated_data d")
     (simp add: StoreProfileSerializer_create_def atomic_def)

theorem create_is_all_or_nothing_witness:
  "users (snd (StoreProfileSerializer_create_body
       (\<lambda>vd rel t. (Inr (vd |` (- {''email''}), rel),
                    t\<lparr>users := users t @ [vd |` {''email''}]\<rparr>))
       (\<lambda>vd t. (Inl (ValidationError ''phone''), t) :: (error + payload) \<times> db)
       [''request'' \<mapsto> \<lparr>user = Some (User 1 None)\<rparr>]
       [''email'' \<mapsto> PyStr ''a@b.c'']
       \<lparr>users = [], profiles = [], products = []\<rparr>)) \<noteq> []
   \<and> StoreProfileSerializer_create
       (\<lambda>vd rel t. (Inr (vd |` (- {''email''}), rel),
                    t\<lparr>users := users t @ [vd |` {''email''}]\<rparr>))
       (\<lambda>vd t. (Inl (ValidationError ''phone''), t) :: (error + payload) \<times> db)
       [''request'' \<mapsto> \<lparr>user = Some (User 1 None)\<rparr>]
       [''email'' \<mapsto> PyStr ''a@b.c'']
       \<lparr>users = [], profiles = [], products = []\<rparr>
     = (Inl (ValidationError ''phone''), \<lparr>users = [], profiles = [], products = []\<rparr>)"
proof -
  let ?upd = "\<lambda>(vd :: payload) (rel :: payload) t.
     ((Inr (vd |` (- {''email''}), rel) :: error + (payload \<times> payload)),
                    t\<lparr>users := users t @ [vd |` {''email''}]\<rparr>)"
  let ?sc = "\<lambda>(vd :: payload) (t :: db). (Inl (ValidationError ''phone''), t) :: (error + payload) \<times> db"
  let ?ctx = "[''request'' \<mapsto> \<lparr>user = Some (User 1 None)\<rparr>]"
  let ?vd = "[''email'' \<mapsto> PyStr ''a@b.c'']"
  let ?d = "\<lparr>users = [], profiles = [], products = []\<rparr>"
  have b: "StoreProfileSerializer_create_body ?upd ?sc ?ctx ?vd ?d =
     (Inl (ValidationError ''phone''), \<lparr>users = [?vd |` {''email''}], profiles = [], products = []\<rparr>)"
    by (simp add: StoreProfileSerializer_create_body_def user_and_is_authenticated_def
        hasattr_profile_def getattr_profile_def)
  have f: "fst (StoreProfileSerializer_create_body ?upd ?sc ?ctx ?vd ?d) =
     Inl (ValidationError ''phone'')"
    unfolding b by simp
  have u: "users (snd (StoreProfileSerializer_create_body ?upd ?sc ?ctx ?vd ?d)) \<noteq> []"
    unfolding b by simp
  show ?thesis
    using create_is_all_or_nothing [OF f] u by blast
qed

text \<open>
  C4. Uniqueness: for an authenticated actor who already has a profile, \<open>create\<close> raises
  ValidationError, writes nothing, and the number of StoreProfile rows of that actor,
  if it was 1, is still 1.
\<close>

theorem second_profile_create_rejected:
  assumes "ctx ''request'' = Some req"
    and "user req = Some (User uid (Some p))"
  shows "StoreProfileSerializer_create update_flattened_field super_create ctx validated_data d
           = (Inl (ValidationError ''user already has a StoreProfile!''), d)
         \<and> profiles (snd (StoreProfileSerializer_create update_flattened_field super_create
                            ctx validated_data d)) = profiles d
         \<and> (profile_count d uid = 1 \<longrightarrow>
              profile_count (snd (StoreProfileSerializer_create update_flattened_field
                                    super_create ctx validated_data d)) uid = 1)"
proof -
  have "StoreProfileSerializer_create_body update_flattened_field super_create
          ctx validated_data d
        = (Inl (ValidationError ''user already has a StoreProfile!''), d)"
    using assms
    by (simp add: StoreProfileSerializer_create_body_def user_and_is_authenticated_def
        hasattr_profile_def getattr_profile_def)
  then have "StoreProfileSerializer_create update_flattened_field super_create
               ctx validated_data d
             = (Inl (ValidationError ''user already has a StoreProfile!''), d)"
    by (simp add: StoreProfileSerializer_create_def atomic_def)
  then show ?thesis by simp
qed

theorem second_profile_create_rejected_witness:
  "profile_count \<lparr>users = [], profiles = [[''user'' \<mapsto> PyUser (User 1 None)]], products = []\<rparr> 1 = 1
   \<and> StoreProfileSerializer_create
       (\<lambda>vd rel t. (Inr (vd, rel), t))
       (\<lambda>vd t. (Inr vd, t\<lparr>profiles := profiles t @ [vd]\<rparr>))
       [''request'' \<mapsto> \<lparr>user = Some (User 1 (Some (Profile 7)))\<rparr>]
       [''phone'' \<mapsto> PyStr ''555'']
       \<lparr>users = [], profiles = [[''user'' \<mapsto> PyUser (User 1 None)]], products = []\<rparr>
     = (Inl (ValidationError ''user already has a StoreProfile!''),
        \<lparr>users = [], profiles = [[''user'' \<mapsto> PyUser (User 1 None)]], products = []\<rparr>)
   \<and> profile_count (snd (StoreProfileSerializer_create
       (\<lambda>vd rel t. (Inr (vd, rel), t))
       (\<lambda>vd t. (Inr vd, t\<lparr>profiles := profiles t @ [vd]\<rparr>))
       [''request'' \<mapsto> \<lparr>user = Some (User 1 (Some (Profile 7)))\<rparr>]
       [''phone'' \<mapsto> PyStr ''555'']
       \<lparr>users = [], profiles = [[''user'' \<mapsto> PyUser (User 1 None)]], products = []\<rparr>)) 1 = 1"
proof -
  have c: "profile_count \<lparr>users = [], profiles = [[''user'' \<mapsto> PyUser (User 1 None)]], products = []\<rparr> 1 = 1"
    by (simp add: profile_count_def)
  show ?thesis
    using second_profile_create_rejected
      [of "[''request'' \<mapsto> \<lparr>user = Some (User 1 (Some (Profile 7)))\<rparr>]"
          "\<lparr>user = Some (User 1 (Some (Profile 7)))\<rparr>" 1 "Profile 7"
          "\<lambda>vd rel t. (Inr (vd, rel), t)"
          "\<lambda>vd t. (Inr vd, t\<lparr>profiles := profiles t @ [vd]\<rparr>)"
          "[''phone'' \<mapsto> PyStr ''555'']"
          "\<lparr>users = [], profiles = [[''user'' \<mapsto> PyUser (User 1 None)]], products = []\<rparr>"] c
    by simp
qed

subsection \<open>The computed field is_self\<close>

lemma get_is_self_iff:
  "get_is_self ctx pr =
     (\<exists>req uid. ctx ''request'' = Some req \<and> user req = Some (User uid (Some pr)))"
proof (cases "ctx ''request''")
  case None
  then show ?thesis by (simp add: get_is_self_def getattr_profile_def)
next
  case (Some req)
  then show ?thesis
    by (cases "user req" rule: profile_attr.cases)
       (auto simp: get_is_self_def getattr_profile_def)
qed

text \<open>
  C6. \<open>get_is_self\<close> is true exactly when the context holds a request whose user is a
  stored user with the serialized profile as its profile, that is, whose profile has the
  same primary key. It is false when there is no request, and when the user is \<open>None\<close>,
  anonymous or has no profile. The function has a boolean value on every input.
\<close>

theorem is_self_same_entity:
  "(get_is_self ctx pr \<longleftrightarrow>
      (\<exists>req uid. ctx ''request'' = Some req \<and> user req = Some (User uid (Some pr))))
   \<and> (ctx ''request'' = None \<longrightarrow> \<not> get_is_self ctx pr)
   \<and> (\<forall>req. ctx ''request'' = Some req
         \<and> (case user req of Some (User uid (Some p)) \<Rightarrow> False | _ \<Rightarrow> True)
         \<longrightarrow> \<not> get_is_self ctx pr)
   \<and> (\<forall>req uid p. ctx ''request'' = Some req \<and> user req = Some (User uid (Some p))
         \<longrightarrow> get_is_self ctx pr = (pk p = pk pr))"
  by (auto simp: get_is_self_iff profile.expand)

theorem is_self_same_entity_witness:
  "get_is_self [''request'' \<mapsto> \<lparr>user = Some (User 1 (Some (Profile 7)))\<rparr>] (Profile 7)
   \<and> \<not> get_is_self [''request'' \<mapsto> \<lparr>user = Some (User 1 (Some (Profile 7)))\<rparr>] (Profile 8)
   \<and> \<not> get_is_self Map.empty (Profile 7)
   \<and> \<not> get_is_self [''request'' \<mapsto> \<lparr>user = None\<rparr>] (Profile 7)
   \<and> \<not> get_is_self [''request'' \<mapsto> \<lparr>user = Some AnonymousUser\<rparr>] (Profile 7)
   \<and> \<not> get_is_self [''request'' \<mapsto> \<lparr>user = Some (User 1 None)\<rparr>] (Profile 7)"
  using is_self_same_entity [of "[''request'' \<mapsto> \<lparr>user = Some (User 1 (Some (Profile 7)))\<rparr>]" "Profile 7"]
    is_self_same_entity [of "[''request'' \<mapsto> \<lparr>user = Some (User 1 (Some (Profile 7)))\<rparr>]" "Profile 8"]
    is_self_same_entity [of Map.empty "Profile 7"]
    is_self_same_entity [of "[''request'' \<mapsto> \<lparr>user = None\<rparr>]" "Profile 7"]
    is_self_same_entity [of "[''request'' \<mapsto> \<lparr>user = Some AnonymousUser\<rparr>]" "Profile 7"]
    is_self_same_entity [of "[''request'' \<mapsto> \<lparr>user = Some (User 1 None)\<rparr>]" "Profile 7"]
  by simp

subsection \<open>The category tree\<close>

lemma foldr_max_le: "foldr max xs (0::nat) \<le> m \<longleftrightarrow> (\<forall>x\<in>set xs. x \<le> m)"
  by (induction xs) auto

lemma collect_results_Inr:
  "list_all2 (\<lambda>x r. f x = Inr r) xs rs \<Longrightarrow> collect_results (map f xs) = Inr rs"
  by (induction xs rs rule: list_all2_induct) simp_all

lemma collect_results_Inr_D:
  "collect_results xs = Inr rs \<Longrightarrow> list_all2 (\<lambda>x r. x = Inr r) xs rs"
  by (induction xs arbitrary: rs) (auto split: sum.splits)

lemma collect_results_Inl_D: "collect_results xs = Inl e \<Longrightarrow> Inl e \<in> set xs"
  by (induction xs) (auto split: sum.splits)

lemma list_all2_choice:
  "(\<forall>x\<in>set xs. \<exists>y. Q x y) \<Longrightarrow> \<exists>ys. list_all2 Q xs ys"
proof (induction xs)
  case Nil
  then show ?case by simp
next
  case (Cons x xs)
  then obtain y ys where "Q x y" and "list_all2 Q xs ys" by auto
  then have "list_all2 Q (x # xs) (y # ys)" by simp
  then show ?case by blast
qed

lemma serialized_as_children:
  assumes "list_all2 serialized_as cs rs"
  shows "concat (map repr_categories rs) = cs"
    and "sum_list (map repr_count rs) = sum_list (map category_count cs)"
    and "concat (map repr_shapes rs) = map category_shape cs"
    and "list_all exposes_category_fields rs"
  using assms
  by (induction cs rs rule: list_all2_induct) (simp_all add: serialized_as_def)

lemma to_representation_enough:
  "category_depth c \<le> max_depth \<Longrightarrow>
     \<exists>r. CategorySerializer_to_representation max_depth c = Inr r \<and> serialized_as c r"
proof (induction c arbitrary: max_depth)
  case (Category n s cs)
  from Category.prems obtain m where m: "max_depth = Suc m" and
    d: "\<forall>x\<in>set cs. category_depth x \<le> m"
    by (cases max_depth) (auto simp: foldr_max_le)
  have "\<forall>x\<in>set cs. \<exists>r. CategorySerializer_to_representation m x = Inr r \<and> serialized_as x r"
    using Category.IH d by blast
  then have "\<exists>rs. list_all2
      (\<lambda>x r. CategorySerializer_to_representation m x = Inr r \<and> serialized_as x r) cs rs"
    by (rule list_all2_choice)
  then obtain rs where
    rs: "list_all2 (\<lambda>x r. CategorySerializer_to_representation m x = Inr r \<and> serialized_as x r) cs rs"
    ..
  have c: "collect_results (map (CategorySerializer_to_representation m) cs) = Inr rs"
    by (rule collect_results_Inr) (rule list_all2_mono [OF rs], simp)
  have a: "list_all2 serialized_as cs rs"
    by (rule list_all2_mono [OF rs]) simp
  have "serialized_as (Category n s cs)
          (RDict [(''name'', RStr n), (''slug'', RStr s), (''children'', RList rs)])"
    using serialized_as_children [OF a]
    by (simp add: serialized_as_def repr_string_def)
  with c m show ?case by simp
qed

lemma to_representation_Inr_depth:
  "CategorySerializer_to_representation max_depth c = Inr r \<Longrightarrow> category_depth c \<le> max_depth"
proof (induction c arbitrary: max_depth r)
  case (Category n s cs)
  from Category.prems obtain m where m: "max_depth = Suc m"
    by (cases max_depth) auto
  from Category.prems m obtain rs where
    "collect_results (map (CategorySerializer_to_representation m) cs) = Inr rs"
    by (auto split: sum.splits)
  from collect_results_Inr_D [OF this]
  have "\<forall>x\<in>set cs. \<exists>r. CategorySerializer_to_representation m x = Inr r"
    by (auto simp: list_all2_conv_all_nth in_set_conv_nth)
  then have "\<forall>x\<in>set cs. category_depth x \<le> m"
    using Category.IH by blast
  with m show ?case by (simp add: foldr_max_le)
qed

lemma to_representation_Inl:
  "CategorySerializer_to_representation max_depth c = Inl e \<Longrightarrow> e = RecursionError"
proof (induction c arbitrary: max_depth)
  case (Category n s cs)
  show ?case
  proof (cases max_depth)
    case 0
    with Category.prems show ?thesis by simp
  next
    case (Suc m)
    with Category.prems
    have "collect_results (map (CategorySerializer_to_representation m) cs) = Inl e"
      by (auto split: sum.splits)
    from collect_results_Inl_D [OF this] obtain x where "x \<in> set cs"
      and "CategorySerializer_to_representation m x = Inl e" by auto
    then show ?thesis using Category.IH by blast
  qed
qed

lemma to_representation_too_deep:
  assumes "max_depth < category_depth c"
  shows "CategorySerializer_to_representation max_depth c = Inl RecursionError"
proof (cases "CategorySerializer_to_representation max_depth c")
  case (Inl e)
  with to_representation_Inl [OF Inl] show ?thesis by simp
next
  case (Inr r)
  from to_representation_Inr_depth [OF Inr] assms show ?thesis by simp
qed

lemma to_representation_chain:
  "CategorySerializer_to_representation n (category_chain n) = Inl RecursionError"
  by (induction n) simp_all

lemma category_depth_chain: "category_depth (category_chain n) = Suc n"
  by (induction n) simp_all

text \<open>
  C7. On a category tree whose depth is at most the number of nested levels the
  interpreter's stack holds, \<open>CategorySerializer\<close> returns a value that describes exactly
  that tree: the same categories with their names and slugs in the same nesting, as many
  dicts as categories, the same shape, and in every dict exactly the keys name, slug,
  children. On a deeper tree it raises RecursionError and returns nothing.
\<close>

theorem category_serialization_bounded_depth:
  "(category_depth c \<le> max_depth \<longrightarrow>
      (\<exists>r. CategorySerializer_to_representation max_depth c = Inr r
         \<and> repr_categories r = [c]
         \<and> repr_count r = category_count c
         \<and> repr_shapes r = [category_shape c]
         \<and> exposes_category_fields r))
   \<and> (max_depth < category_depth c \<longrightarrow>
        CategorySerializer_to_representation max_depth c = Inl RecursionError)"
  using to_representation_enough [of c max_depth] to_representation_too_deep [of max_depth c]
  by (auto simp: serialized_as_def)

theorem category_serialization_bounded_depth_witness:
  "category_depth (Category ''food'' ''food''
        [Category ''roots'' ''roots'' [Category ''carrot'' ''carrot'' []],
         Category ''fruit'' ''fruit'' []]) \<le> 3
   \<and> CategorySerializer_to_representation 3
       (Category ''food'' ''food''
        [Category ''roots'' ''roots'' [Category ''carrot'' ''carrot'' []],
         Category ''fruit'' ''fruit'' []])
     = Inr (RDict [(''name'', RStr ''food''), (''slug'', RStr ''food''),
         (''children'', RList
            [RDict [(''name'', RStr ''roots''), (''slug'', RStr ''roots''),
               (''children'', RList
                  [RDict [(''name'', RStr ''carrot''), (''slug'', RStr ''carrot''),
                     (''children'', RList [])]])],
             RDict [(''name'', RStr ''fruit''), (''slug'', RStr ''fruit''),
               (''children'', RList [])]])])
   \<and> repr_count (RDict [(''name'', RStr ''food''), (''slug'', RStr ''food''),
         (''children'', RList
            [RDict [(''name'', RStr ''roots''), (''slug'', RStr ''roots''),
               (''children'', RList
                  [RDict [(''name'', RStr ''carrot''), (''slug'', RStr ''carrot''),
                     (''children'', RList [])]])],
             RDict [(''name'', RStr ''fruit''), (''slug'', RStr ''fruit''),
               (''children'', RList [])]])]) = 4
   \<and> 2 < category_depth (Category ''food'' ''food''
        [Category ''roots'' ''roots'' [Category ''carrot'' ''carrot'' []],
         Category ''fruit'' ''fruit'' []])
   \<and> CategorySerializer_to_representation 2
       (Category ''food'' ''food''
        [Category ''roots'' ''roots'' [Category ''carrot'' ''carrot'' []],
         Category ''fruit'' ''fruit'' []]) = Inl RecursionError"
  using category_serialization_bounded_depth
    [of "Category ''food'' ''food''
        [Category ''roots'' ''roots'' [Category ''carrot'' ''carrot'' []],
         Category ''fruit'' ''fruit'' []]" 3]
    category_serialization_bounded_depth
    [of "Category ''food'' ''food''
        [Category ''roots'' ''roots'' [Category ''carrot'' ''carrot'' []],
         Category ''fruit'' ''fruit'' []]" 2]
  by (simp add: eval_nat_numeral)

text \<open>
  Depth is not arbitrary: under the default recursion limit of 1000 frames no more than
  1000 levels fit, and the acyclic chain of 1001 categories is not serialized.
\<close>

theorem category_serialization_deep_chain_counterexample:
  "category_depth (category_chain 1000) = 1001
   \<and> CategorySerializer_to_representation 1000 (category_chain 1000) = Inl RecursionError"
  by (simp add: to_representation_chain category_depth_chain)

subsection \<open>Declared field sets\<close>

text \<open>
  C8. The creation variant declares the base fields without products, and gives
  \<open>required = True\<close> to each of its fields that is not read-only; the nested variant
  declares the base fields without products (the same tuple as the creation variant); the
  detail variant declares the list variant's fields and description, which the list
  variant does not have.
\<close>

theorem schema_variant_field_sets:
  "set StoreProfileCreateSerializer_fields = set StoreProfileSerializer_fields - {''products''}
   \<and> list_all (\<lambda>k. map_of StoreProfileCreateSerializer_extra_kwargs k = Some [(''required'', True)])
        (filter (\<lambda>k. k \<notin> set StoreProfileSerializer_read_only_fields)
           StoreProfileCreateSerializer_fields)
   \<and> set StoreProfileNestedSerializer_fields = set StoreProfileSerializer_fields - {''products''}
   \<and> StoreProfileNestedSerializer_fields = StoreProfileCreateSerializer_fields
   \<and> set ProductDetailSerializer_fields = set ProductListSerializer_fields \<union> {''description''}
   \<and> ''description'' \<notin> set ProductListSerializer_fields
   \<and> ''products'' \<in> set StoreProfileSerializer_fields"
  unfolding StoreProfileCreateSerializer_fields_def StoreProfileNestedSerializer_fields_def
    StoreProfileCreateSerializer_extra_kwargs_def StoreProfileSerializer_read_only_fields_def
    StoreProfileSerializer_fields_def StoreProfileSerializer_user_fields_def
    StoreProfileSerializer_own_fields_def ProductDetailSerializer_fields_def
    ProductListSerializer_fields_def ProductNestedSerializer_fields_def
  by auto

text \<open>
  C9. In \<open>StoreProfileSerializer.Meta\<close> the names of the flatten groups are pairwise
  different, none of them is among the parent's own fields, no declared field occurs
  twice, and the group names together with the parent's own fields, method fields left
  out, are exactly the declared fields with the method fields left out.
\<close>

theorem flatten_spec_invariant:
  "distinct (concat (map snd StoreProfileSerializer_flatten_fields))
   \<and> set (concat (map snd StoreProfileSerializer_flatten_fields))
       \<inter> set StoreProfileSerializer_own_fields = {}
   \<and> distinct StoreProfileSerializer_fields
   \<and> set (concat (map snd StoreProfileSerializer_flatten_fields))
       \<union> (set StoreProfileSerializer_own_fields - set StoreProfileSerializer_method_fields)
     = set StoreProfileSerializer_fields - set StoreProfileSerializer_method_fields"
  unfolding StoreProfileSerializer_flatten_fields_def StoreProfileSerializer_fields_def
    StoreProfileSerializer_user_fields_def StoreProfileSerializer_own_fields_def
    StoreProfileSerializer_method_fields_def
  by auto

subsection \<open>Splitting and re-merging a flat payload\<close>

lemma restrict_map_split: "(m |` A) ++ (m |` (- A)) = m"
  by (rule ext) (simp add: map_add_def restrict_map_def split: option.splits)

lemma merge_split_payload: "split_payload groups p = (subs, own) \<Longrightarrow> merge_payload subs own = p"
proof (induction groups arbitrary: p subs own)
  case Nil
  then show ?case by simp
next
  case (Cons g groups)
  obtain rel names where g: "g = (rel, names)" by (cases g)
  obtain subs' own' where r: "split_payload groups (p |` (- set names)) = (subs', own')"
    by (cases "split_payload groups (p |` (- set names))")
  from Cons.prems g r have s: "subs = (rel, p |` set names) # subs'" and o: "own = own'"
    by (simp_all add: split_group_def)
  from Cons.IH [OF r] have "merge_payload subs' own' = p |` (- set names)" .
  with s o show ?case by (simp add: restrict_map_split)
qed

lemma key_occurrences_Cons:
  "key_occurrences k ((rel, sub) # subs) own =
     (if sub k \<noteq> None then 1 else 0) + key_occurrences k subs own"
  by (simp add: key_occurrences_def)

lemma key_occurrences_split:
  "split_payload groups p = (subs, own) \<Longrightarrow>
   key_occurrences k subs own = (if p k = None then 0 else 1)"
proof (induction groups arbitrary: p subs own)
  case Nil
  then show ?case by (simp add: key_occurrences_def)
next
  case (Cons g groups)
  obtain rel names where g: "g = (rel, names)" by (cases g)
  obtain subs' own' where r: "split_payload groups (p |` (- set names)) = (subs', own')"
    by (cases "split_payload groups (p |` (- set names))")
  from Cons.prems g r have s: "subs = (rel, p |` set names) # subs'" and o: "own = own'"
    by (simp_all add: split_group_def)
  from Cons.IH [OF r]
  have "key_occurrences k subs' own' = (if (p |` (- set names)) k = None then 0 else 1)" .
  with s o show ?case by (simp add: key_occurrences_Cons restrict_map_def)
qed

text \<open>
  C3. For every flat payload, splitting it by the flatten groups of
  \<open>StoreProfileSerializer\<close> and merging the pieces again gives the payload back: the same
  keys with the same values. Every key of the payload lies in exactly one piece and no
  other key lies in any; the one sub-payload is that of \<open>user\<close> and holds the payload's
  keys among email, first_name, last_name, the parent keeps the others.
\<close>

theorem flatten_split_merge_inverse:
  "merge_payload (fst (split_payload StoreProfileSerializer_flatten_fields p))
     (snd (split_payload StoreProfileSerializer_flatten_fields p)) = p
   \<and> dom (merge_payload (fst (split_payload StoreProfileSerializer_flatten_fields p))
       (snd (split_payload StoreProfileSerializer_flatten_fields p))) = dom p
   \<and> key_occurrences k (fst (split_payload StoreProfileSerializer_flatten_fields p))
       (snd (split_payload StoreProfileSerializer_flatten_fields p))
     = (if k \<in> dom p then 1 else 0)
   \<and> (\<exists>sub. fst (split_payload StoreProfileSerializer_flatten_fields p) = [(''user'', sub)]
        \<and> dom sub = dom p \<inter> {''email'', ''first_name'', ''last_name''})
   \<and> dom (snd (split_payload StoreProfileSerializer_flatten_fields p))
     = dom p - {''email'', ''first_name'', ''last_name''}"
proof -
  obtain subs own where sp: "split_payload StoreProfileSerializer_flatten_fields p = (subs, own)"
    by (cases "split_payload StoreProfileSerializer_flatten_fields p")
  have m: "merge_payload subs own = p"
    by (rule merge_split_payload [OF sp])
  have o: "key_occurrences k subs own = (if k \<in> dom p then 1 else 0)"
    using key_occurrences_split [OF sp, of k] by (simp add: domIff)
  have s: "subs = [(''user'', p |` {''email'', ''first_name'', ''last_name''})]"
    and r: "own = p |` (- {''email'', ''first_name'', ''last_name''})"
    using sp
    by (simp_all add: StoreProfileSerializer_flatten_fields_def
        StoreProfileSerializer_user_fields_def split_group_def)
  have d1: "dom (p |` {''email'', ''first_name'', ''last_name''})
              = dom p \<inter> {''email'', ''first_name'', ''last_name''}"
    by (rule dom_restrict)
  have d2: "dom own = dom p - {''email'', ''first_name'', ''last_name''}"
    unfolding r by (simp only: dom_restrict Diff_eq)
  show ?thesis
    unfolding sp fst_conv snd_conv using m o s d1 d2 by simp
qed

theorem flatten_split_merge_inverse_witness:
  "merge_payload
     (fst (split_payload StoreProfileSerializer_flatten_fields
        [''email'' \<mapsto> PyStr ''a@b.c'', ''phone'' \<mapsto> PyStr ''555'']))
     (snd (split_payload StoreProfileSerializer_flatten_fields
        [''email'' \<mapsto> PyStr ''a@b.c'', ''phone'' \<mapsto> PyStr ''555'']))
   = [''email'' \<mapsto> PyStr ''a@b.c'', ''phone'' \<mapsto> PyStr ''555'']
   \<and> key_occurrences ''email''
     (fst (split_payload StoreProfileSerializer_flatten_fields
        [''email'' \<mapsto> PyStr ''a@b.c'', ''phone'' \<mapsto> PyStr ''555'']))
     (snd (split_payload StoreProfileSerializer_flatten_fields
        [''email'' \<mapsto> PyStr ''a@b.c'', ''phone'' \<mapsto> PyStr ''555''])) = 1"
  using flatten_split_merge_inverse
    [of "[''email'' \<mapsto> PyStr ''a@b.c'', ''phone'' \<mapsto> PyStr ''555'']" "''email''"]
  by simp

end
